theory Spec2Isabelle
  imports Complex_Main "HOL-Library.Char_ord" "HOL-Library.List_Lexorder" "HOL-Library.Sublist"
begin

section \<open>Python values and the builtins the code calls\<close>

text \<open>
  A Python float is a finite double, an infinity or a NaN. The finite doubles are kept by
  their exact rational value; \<open>-0.0\<close> and \<open>0.0\<close> are both \<open>Finite 0\<close>, as \<open>== 0\<close> does
  not tell them apart.
\<close>

datatype pyfloat = Finite rat | PosInf | NegInf | NaN

text \<open>The scalars a table cell or a row label holds.\<close>

datatype pyval = VNone | VBool bool | VInt int | VFloat pyfloat | VStr string

text \<open>Exceptions, by class, with their message.\<close>

datatype error =
    KeyError string
  | TypeError string
  | ValueError string
  | OverflowError string
  | OtherException string string

text \<open>
  The builtins of the Python runtime that the code calls and whose results depend on IEEE
  rounding or on the float grammar are parameters of the model:
  \<^item> \<open>float_of_int i\<close> is \<open>float(i)\<close> on an int; \<open>None\<close> stands for its OverflowError;
  \<^item> \<open>float_of_str s\<close> is \<open>float(s)\<close> on a str; \<open>None\<close> stands for its ValueError;
  \<^item> \<open>str_of_float x\<close> is \<open>str(x)\<close> on a float;
  \<^item> \<open>float_div a b\<close> is \<open>a / b\<close> on floats with \<open>b\<close> not zero.
\<close>

record py_builtins =
  float_of_int :: "int \<Rightarrow> pyfloat option"
  float_of_str :: "string \<Rightarrow> pyfloat option"
  str_of_float :: "pyfloat \<Rightarrow> string"
  float_div :: "pyfloat \<Rightarrow> pyfloat \<Rightarrow> pyfloat"

definition quote :: char where
  "quote = CHR 0x27"

definition newline :: char where
  "newline = CHR 0x0A"

definition digit_char :: "nat \<Rightarrow> char" where
  "digit_char d = ''0123456789'' ! (d mod 10)"

function str_of_nat :: "nat \<Rightarrow> string" where
  "str_of_nat n = (if n < 10 then [digit_char n] else str_of_nat (n div 10) @ [digit_char (n mod 10)])"
  by pat_completeness auto
termination
  by (relation "measure id") auto

declare str_of_nat.simps [simp del]

definition str_of_int :: "int \<Rightarrow> string" where
  "str_of_int i = (if i < 0 then CHR ''-'' # str_of_nat (nat (- i)) else str_of_nat (nat i))"

text \<open>\<open>str(v)\<close>, which is also what \<open>Index.astype(str)\<close> applies to each label.\<close>

fun py_str :: "py_builtins \<Rightarrow> pyval \<Rightarrow> string" where
  "py_str rt VNone = ''None''"
| "py_str rt (VBool b) = (if b then ''True'' else ''False'')"
| "py_str rt (VInt i) = str_of_int i"
| "py_str rt (VFloat x) = str_of_float rt x"
| "py_str rt (VStr s) = s"

text \<open>
  \<open>float(v)\<close>. The messages of the TypeError and ValueError are those of CPython 3.10 and
  later; the callers below discard them.
\<close>

fun py_float :: "py_builtins \<Rightarrow> pyval \<Rightarrow> error + pyfloat" where
  "py_float rt VNone =
     Inl (TypeError (''float() argument must be a string or a real number, not ''
                     @ quote # ''NoneType'' @ [quote]))"
| "py_float rt (VBool b) = Inr (Finite (if b then 1 else 0))"
| "py_float rt (VInt i) =
     (case float_of_int rt i of
        None \<Rightarrow> Inl (OverflowError ''int too large to convert to float'')
      | Some x \<Rightarrow> Inr x)"
| "py_float rt (VFloat x) = Inr x"
| "py_float rt (VStr s) =
     (case float_of_str rt s of
        None \<Rightarrow> Inl (ValueError (''could not convert string to float: '' @ quote # s @ [quote]))
      | Some x \<Rightarrow> Inr x)"

section \<open>Tables (pandas DataFrame)\<close>

text \<open>
  A DataFrame is its column labels and its rows, each row being its index label and its
  cells in column order (as many cells as there are columns, the labels of the columns
  distinct). A freshly built frame has the labels \<open>0, 1, ...\<close> of a RangeIndex. The
  operations below pair labels and cells with \<open>zip\<close>, so they are defined on every value of
  the record type.
\<close>

record dataframe =
  columns :: "string list"
  rows :: "(pyval \<times> pyval list) list"

definition index :: "dataframe \<Rightarrow> pyval list" where
  "index df = map fst (rows df)"

text \<open>\<open>df.index.astype(str)\<close>\<close>

definition index_astype_str :: "py_builtins \<Rightarrow> dataframe \<Rightarrow> string list" where
  "index_astype_str rt df = map (py_str rt) (index df)"

text \<open>The cells of one row under the column label \<open>c\<close>.\<close>

definition cells_at :: "string list \<Rightarrow> pyval list \<Rightarrow> string \<Rightarrow> pyval list" where
  "cells_at cols cs c = map snd (filter (\<lambda>nv. fst nv = c) (zip cols cs))"

text \<open>
  \<open>df.set_index(c)\<close> for a column \<open>c\<close> of the frame: the cells of the column become the row
  labels and the column is dropped. The old labels are lost.
\<close>

definition set_index :: "string \<Rightarrow> dataframe \<Rightarrow> dataframe" where
  "set_index c df =
     \<lparr> columns = filter (\<lambda>n. n \<noteq> c) (columns df),
       rows = map (\<lambda>r. (case cells_at (columns df) (snd r) c of v # _ \<Rightarrow> v | [] \<Rightarrow> VNone,
                        map snd (filter (\<lambda>nv. fst nv \<noteq> c) (zip (columns df) (snd r)))))
                  (rows df) \<rparr>"

text \<open>
  \<open>df.loc[key]\<close> for a str \<open>key\<close>: the rows whose label equals the key. A label that is not
  a str is never equal to a str. No such row is a KeyError; one row comes back as a Series
  and several as a DataFrame, here the list of the cells of the selected rows.
\<close>

definition loc :: "dataframe \<Rightarrow> string \<Rightarrow> error + pyval list list" where
  "loc df key =
     (case map snd (filter (\<lambda>r. fst r = VStr key) (rows df)) of
        [] \<Rightarrow> Inl (KeyError key)
      | sel \<Rightarrow> Inr sel)"

text \<open>
  \<open>float(row[c])\<close> on the result of \<open>loc\<close>: the label \<open>c\<close> is looked up (a KeyError when
  absent); a single cell is converted, and a Series or DataFrame of several cells is not
  convertible (a TypeError).
\<close>

definition float_item :: "py_builtins \<Rightarrow> string list \<Rightarrow> pyval list list \<Rightarrow> string \<Rightarrow> error + pyfloat" where
  "float_item rt cols sel c =
     (case concat (map (\<lambda>cs. cells_at cols cs c) sel) of
        [] \<Rightarrow> Inl (KeyError c)
      | [v] \<Rightarrow> py_float rt v
      | _ \<Rightarrow> Inl (TypeError (''cannot convert the series to <class '' @ quote # ''float'' @ quote # ''>'')))"

section \<open>The ratio analyzer\<close>

record RatioResult =
  name :: string
  period :: string
  result :: pyfloat

text \<open>
  Frames are objects: the analyzer copies its inputs and then changes the copies in place.
  The heap maps an address to the frame stored there; the addresses below \<open>next_addr\<close> are
  the allocated ones.
\<close>

record heap =
  frames :: "nat \<Rightarrow> dataframe"
  next_addr :: nat

record FinancialRatioAnalyzer =
  balance_sheet :: nat
  income_stmt :: nat
  cash_flow :: "nat option"
  periods :: "string list"

text \<open>\<open>df.copy()\<close>: a new object with the same content.\<close>

definition df_copy :: "heap \<Rightarrow> nat \<Rightarrow> heap \<times> nat" where
  "df_copy h a =
     (h\<lparr> frames := (frames h)(next_addr h := frames h a), next_addr := Suc (next_addr h) \<rparr>,
      next_addr h)"

text \<open>The body of the loop of the constructor: \<open>df.set_index("period", inplace=True)\<close>.\<close>

definition promote_period :: "heap \<Rightarrow> nat \<Rightarrow> heap" where
  "promote_period h a =
     (if ''period'' \<in> set (columns (frames h a))
      then h\<lparr> frames := (frames h)(a := set_index ''period'' (frames h a)) \<rparr>
      else h)"

definition FinancialRatioAnalyzer_init ::
  "py_builtins \<Rightarrow> heap \<Rightarrow> nat \<Rightarrow> nat \<Rightarrow> nat option \<Rightarrow> string list option
     \<Rightarrow> heap \<times> FinancialRatioAnalyzer" where
  "FinancialRatioAnalyzer_init rt h0 balance_sheet_df income_stmt_df cash_flow_df periods_arg =
     (let (h1, bs) = df_copy h0 balance_sheet_df;
          (h2, inc) = df_copy h1 income_stmt_df;
          (h3, cf) = (case cash_flow_df of
                        None \<Rightarrow> (h2, None)
                      | Some c \<Rightarrow> (let (h, a) = df_copy h2 c in (h, Some a)));
          h4 = foldl promote_period h3
                 (case cf of Some c \<Rightarrow> [bs, inc, c] | None \<Rightarrow> [bs, inc]);
          ps = (case periods_arg of
                  Some given \<Rightarrow> given
                | None \<Rightarrow>
                    sorted_list_of_set
                      (set (index_astype_str rt (frames h4 bs))
                       \<inter> set (index_astype_str rt (frames h4 inc))))
      in (h4, \<lparr> balance_sheet = bs, income_stmt = inc, cash_flow = cf, periods = ps \<rparr>))"

definition py_repr_str :: "string \<Rightarrow> string" where
  \<comment> \<open>\<open>repr\<close> of a str without quotes, backslashes or control characters\<close>
  "py_repr_str s = quote # s @ [quote]"

fun join_comma :: "string list \<Rightarrow> string" where
  "join_comma [] = []"
| "join_comma [s] = s"
| "join_comma (s # t # ss) = s @ '', '' @ join_comma (t # ss)"

definition py_repr_list :: "string list \<Rightarrow> string" where
  "py_repr_list ss = ''['' @ join_comma (map py_repr_str ss) @ '']''"

definition require_columns :: "dataframe \<Rightarrow> string list \<Rightarrow> string \<Rightarrow> error + unit" where
  "require_columns df cols df_name =
     (let missing = filter (\<lambda>c. c \<notin> set (columns df)) cols
      in if missing \<noteq> []
         then Inl (ValueError (df_name @ '' missing columns: '' @ py_repr_list missing))
         else Inr ())"

text \<open>The exceptions that the \<open>except (KeyError, TypeError, ValueError)\<close> clauses catch.\<close>

fun caught :: "error \<Rightarrow> bool" where
  "caught (KeyError m) = True"
| "caught (TypeError m) = True"
| "caught (ValueError m) = True"
| "caught e = False"

text \<open>
  One pass of a \<open>for period in self.periods\<close> loop ends in an exception that leaves the
  loop (\<open>Inl\<close>), in \<open>continue\<close> (\<open>Inr None\<close>) or in \<open>results.append\<close> (\<open>Inr (Some r)\<close>).
\<close>

fun ratio_loop ::
  "(string \<Rightarrow> error + RatioResult option) \<Rightarrow> string list \<Rightarrow> RatioResult list
     \<Rightarrow> error + RatioResult list" where
  "ratio_loop body [] results = Inr results"
| "ratio_loop body (p # ps) results =
     (case body p of
        Inl e \<Rightarrow> Inl e
      | Inr None \<Rightarrow> ratio_loop body ps results
      | Inr (Some r) \<Rightarrow> ratio_loop body ps (results @ [r]))"

definition current_ratio_body ::
  "py_builtins \<Rightarrow> dataframe \<Rightarrow> string \<Rightarrow> error + RatioResult option" where
  "current_ratio_body rt bs p =
     (if p \<notin> set (index_astype_str rt bs) then Inr None
      else case loc bs p of
        Inl e \<Rightarrow> Inl e
      | Inr row \<Rightarrow>
         (case float_item rt (columns bs) row ''current_assets'' of
            Inl e \<Rightarrow> (if caught e then Inr None else Inl e)
          | Inr current_assets \<Rightarrow>
             (case float_item rt (columns bs) row ''current_liabilities'' of
                Inl e \<Rightarrow> (if caught e then Inr None else Inl e)
              | Inr current_liabilities \<Rightarrow>
                 Inr (Some \<lparr> name = ''Current Ratio'', period = p,
                             result = (if current_liabilities = Finite 0 then PosInf
                                       else float_div rt current_assets current_liabilities) \<rparr>))))"

definition calculate_current_ratio ::
  "py_builtins \<Rightarrow> heap \<Rightarrow> FinancialRatioAnalyzer \<Rightarrow> error + RatioResult list" where
  "calculate_current_ratio rt h self =
     (let bs = frames h (balance_sheet self)
      in case require_columns bs [''current_assets'', ''current_liabilities''] ''balance_sheet'' of
           Inl e \<Rightarrow> Inl e
         | Inr _ \<Rightarrow> ratio_loop (current_ratio_body rt bs) (periods self) [])"

definition return_on_assets_body ::
  "py_builtins \<Rightarrow> dataframe \<Rightarrow> dataframe \<Rightarrow> string \<Rightarrow> error + RatioResult option" where
  "return_on_assets_body rt inc bs p =
     (if p \<notin> set (index_astype_str rt inc) \<or> p \<notin> set (index_astype_str rt bs) then Inr None
      else case loc inc p of
        Inl e \<Rightarrow> Inl e
      | Inr ni_row \<Rightarrow>
         (case loc bs p of
            Inl e \<Rightarrow> Inl e
          | Inr bs_row \<Rightarrow>
             (case float_item rt (columns inc) ni_row ''net_income'' of
                Inl e \<Rightarrow> (if caught e then Inr None else Inl e)
              | Inr net_income \<Rightarrow>
                 (case float_item rt (columns bs) bs_row ''total_assets'' of
                    Inl e \<Rightarrow> (if caught e then Inr None else Inl e)
                  | Inr total_assets \<Rightarrow>
                     Inr (Some \<lparr> name = ''Return on Assets'', period = p,
                                 result = (if total_assets = Finite 0 then PosInf
                                           else float_div rt net_income total_assets) \<rparr>)))))"

definition calculate_return_on_assets ::
  "py_builtins \<Rightarrow> heap \<Rightarrow> FinancialRatioAnalyzer \<Rightarrow> error + RatioResult list" where
  "calculate_return_on_assets rt h self =
     (let inc = frames h (income_stmt self); bs = frames h (balance_sheet self)
      in case require_columns inc [''net_income''] ''income_stmt'' of
           Inl e \<Rightarrow> Inl e
         | Inr _ \<Rightarrow>
            (case require_columns bs [''total_assets''] ''balance_sheet'' of
               Inl e \<Rightarrow> Inl e
             | Inr _ \<Rightarrow> ratio_loop (return_on_assets_body rt inc bs) (periods self) []))"

section \<open>Statement values and their coercion to a table\<close>

text \<open>
  What the filings provider hands over is an arbitrary Python object. The model knows
  tables, scalars (\<open>None\<close> among them), lists, tuples, dicts with str keys, and instances
  \<open>Obj cls call attrs dict\<close> of any other class \<open>cls\<close>:
  \<^item> \<open>call\<close> is what calling the object with no argument does, \<open>None\<close> when the object
    is not callable (functions and bound methods are callable objects);
  \<^item> \<open>attrs\<close> holds the attributes that \<open>getattr\<close> and \<open>hasattr\<close> find, methods included;
  \<^item> \<open>dict\<close> is the object's \<open>__dict__\<close>, \<open>None\<close> when it has none.
  A call ends in a value or in an exception of class \<open>Exception\<close>.
\<close>

datatype pyobj =
    DataFrame dataframe
  | PyVal pyval
  | PyList "pyobj list"
  | PyTuple "pyobj list"
  | PyDict "(string \<times> pyobj) list"
  | Obj string "outcome option" "(string \<times> pyobj) list" "(string \<times> pyobj) list option"
and outcome = Returns pyobj | Raises error

text \<open>
  The constructors of pandas that the coercion calls are parameters of the model:
  \<open>DataFrame_new x\<close> is \<open>pd.DataFrame(x)\<close> and \<open>json_normalize d\<close> is
  \<open>pd.json_normalize(d)\<close>; \<open>Inl\<close> is the exception they raise.
\<close>

record pandas_api =
  DataFrame_new :: "pyobj \<Rightarrow> error + dataframe"
  json_normalize :: "(string \<times> pyobj) list \<Rightarrow> error + dataframe"

fun type_name :: "pyobj \<Rightarrow> string" where
  "type_name (DataFrame df) = ''pandas.core.frame.DataFrame''"
| "type_name (PyVal VNone) = ''NoneType''"
| "type_name (PyVal (VBool b)) = ''bool''"
| "type_name (PyVal (VInt i)) = ''int''"
| "type_name (PyVal (VFloat x)) = ''float''"
| "type_name (PyVal (VStr s)) = ''str''"
| "type_name (PyList xs) = ''list''"
| "type_name (PyTuple xs) = ''tuple''"
| "type_name (PyDict kvs) = ''dict''"
| "type_name (Obj cls call attrs d) = cls"

text \<open>\<open>str(type(obj))\<close>\<close>

definition type_repr :: "pyobj \<Rightarrow> string" where
  "type_repr obj = ''<class '' @ quote # type_name obj @ quote # ''>''"

text \<open>\<open>type(obj).__name__\<close>: the class name without its module path.\<close>

definition short_type_name :: "pyobj \<Rightarrow> string" where
  "short_type_name obj = rev (takeWhile (\<lambda>c. c \<noteq> CHR ''.'') (rev (type_name obj)))"

text \<open>
  \<open>getattr(obj, n)\<close>, \<open>None\<close> when there is no such attribute, for the names the two
  coercion functions probe. Of the builtin types only \<open>dict\<close> has one of them (its method
  \<open>items\<close>). A DataFrame defines none of the names that \<open>normalize_statement\<close> probes, but
  pandas resolves an attribute that names a column to that column (a Series).
\<close>

fun py_getattr :: "pyobj \<Rightarrow> string \<Rightarrow> pyobj option" where
  "py_getattr (Obj cls call attrs d) n = map_of attrs n"
| "py_getattr (PyDict kvs) n =
     (if n = ''items''
      then Some (Obj ''builtin_function_or_method''
                   (Some (Returns (Obj ''dict_items'' None [] None))) [] None)
      else None)"
| "py_getattr (DataFrame df) n =
     (if n \<in> set (columns df) then Some (Obj ''pandas.core.series.Series'' None [] None)
      else None)"
| "py_getattr obj n = None"

text \<open>\<open>callable(obj)\<close> holds when this is not \<open>None\<close>.\<close>

fun call_outcome :: "pyobj \<Rightarrow> outcome option" where
  "call_outcome (Obj cls call attrs d) = call"
| "call_outcome obj = None"

text \<open>\<open>obj()\<close>\<close>

definition py_call :: "pyobj \<Rightarrow> error + pyobj" where
  "py_call obj =
     (case call_outcome obj of
        None \<Rightarrow> Inl (TypeError (quote # short_type_name obj @ quote # '' object is not callable''))
      | Some (Returns v) \<Rightarrow> Inr v
      | Some (Raises e) \<Rightarrow> Inl e)"

text \<open>\<open>isinstance(obj, (list, dict, tuple))\<close>\<close>

fun is_records :: "pyobj \<Rightarrow> bool" where
  "is_records (PyList xs) = True"
| "is_records (PyTuple xs) = True"
| "is_records (PyDict kvs) = True"
| "is_records obj = False"

text \<open>\<open>obj\<close> when \<open>isinstance(obj, pd.DataFrame)\<close>\<close>

fun as_dataframe :: "pyobj \<Rightarrow> dataframe option" where
  "as_dataframe (DataFrame df) = Some df"
| "as_dataframe obj = None"

text \<open>\<open>getattr(obj, "__dict__", None)\<close> when it is a dict.\<close>

fun py_dict :: "pyobj \<Rightarrow> (string \<times> pyobj) list option" where
  "py_dict (Obj cls call attrs d) = d"
| "py_dict obj = None"

subsection \<open>\<open>ensure_dataframe\<close> (Rav/tickerinput.py)\<close>

definition conversion_methods :: "string list" where
  "conversion_methods =
     [''to_frame'', ''to_dataframe'', ''to_df'', ''to_pandas'', ''as_dataframe'', ''as_df'',
      ''as_pandas'']"

definition tabular_attributes :: "string list" where
  "tabular_attributes =
     [''df'', ''data'', ''dataframe'', ''table'', ''rows'', ''items'', ''statements'']"

text \<open>
  What one conversion method contributes: the table that the \<open>try\<close> block returns, or
  \<open>None\<close> when the loop goes on to the next name (no such attribute, not callable, an
  exception swallowed by \<open>except Exception\<close>, or a result that is no table and no records).
\<close>

definition try_method :: "pandas_api \<Rightarrow> pyobj \<Rightarrow> string \<Rightarrow> dataframe option" where
  "try_method pd obj meth =
     (case py_getattr obj meth of
        None \<Rightarrow> None
      | Some fn \<Rightarrow>
         (case call_outcome fn of
            None \<Rightarrow> None
          | Some (Raises e) \<Rightarrow> None
          | Some (Returns res) \<Rightarrow>
             (case as_dataframe res of
                Some df \<Rightarrow> Some df
              | None \<Rightarrow>
                 (if is_records res
                  then (case DataFrame_new pd res of Inl e \<Rightarrow> None | Inr df \<Rightarrow> Some df)
                  else None))))"

fun probe_methods :: "pandas_api \<Rightarrow> pyobj \<Rightarrow> string list \<Rightarrow> dataframe option" where
  "probe_methods pd obj [] = None"
| "probe_methods pd obj (meth # rest) =
     (case try_method pd obj meth of
        Some df \<Rightarrow> Some df
      | None \<Rightarrow> probe_methods pd obj rest)"

text \<open>The attribute loop has no \<open>try\<close>: an exception of \<open>pd.DataFrame(val)\<close> leaves it.\<close>

fun probe_attributes :: "pandas_api \<Rightarrow> pyobj \<Rightarrow> string list \<Rightarrow> error + dataframe option" where
  "probe_attributes pd obj [] = Inr None"
| "probe_attributes pd obj (attr # rest) =
     (case py_getattr obj attr of
        None \<Rightarrow> probe_attributes pd obj rest
      | Some val \<Rightarrow>
         (case as_dataframe val of
            Some df \<Rightarrow> Inr (Some df)
          | None \<Rightarrow>
             (if is_records val
              then (case DataFrame_new pd val of Inl e \<Rightarrow> Inl e | Inr df \<Rightarrow> Inr (Some df))
              else probe_attributes pd obj rest)))"

text \<open>The message of the final \<open>raise\<close>; \<open>label\<close> is the parameter \<open>name\<close> of the source.\<close>

definition conversion_failure_message :: "string \<Rightarrow> pyobj \<Rightarrow> string" where
  "conversion_failure_message label obj =
     label @ '' is a '' @ type_repr obj
       @ '' and could not be converted automatically to DataFrame.'' @ [newline]
     @ ''Inspect with: print(type('' @ label @ '')); print(dir('' @ label
       @ '')); print(repr('' @ label @ '')[:400])'' @ [newline]
     @ ''Common fix: call the object'' @ quote # ''s conversion method (e.g. '' @ label
       @ ''.to_frame()) before passing it here.''"

definition ensure_dataframe :: "pandas_api \<Rightarrow> pyobj \<Rightarrow> string \<Rightarrow> error + dataframe" where
  "ensure_dataframe pd obj label =
     (case as_dataframe obj of
        Some df \<Rightarrow> Inr df
      | None \<Rightarrow>
         (if obj = PyVal VNone then Inl (TypeError (label @ '' is None''))
          else case probe_methods pd obj conversion_methods of
            Some df \<Rightarrow> Inr df
          | None \<Rightarrow>
             (case probe_attributes pd obj tabular_attributes of
                Inl e \<Rightarrow> Inl e
              | Inr (Some df) \<Rightarrow> Inr df
              | Inr None \<Rightarrow>
                 (case (if is_records obj
                        then (case DataFrame_new pd obj of Inl e \<Rightarrow> None | Inr df \<Rightarrow> Some df)
                        else None) of
                    Some df \<Rightarrow> Inr df
                  | None \<Rightarrow>
                     (case (case py_dict obj of
                              None \<Rightarrow> None
                            | Some d \<Rightarrow>
                               (if d \<noteq> []
                                then (case json_normalize pd d of
                                        Inl e \<Rightarrow> None
                                      | Inr df \<Rightarrow> Some df)
                                else None)) of
                        Some df \<Rightarrow> Inr df
                      | None \<Rightarrow> Inl (TypeError (conversion_failure_message label obj)))))))"

text \<open>
  \<open>_normalize\<close>, the local function of \<open>fetch_and_prepare_statements\<close>: the period column
  becomes the index and every label its \<open>str\<close>.
\<close>

definition normalize_df :: "py_builtins \<Rightarrow> dataframe \<Rightarrow> dataframe" where
  "normalize_df rt df0 =
     (let df = (if ''period'' \<in> set (columns df0) then set_index ''period'' df0 else df0)
      in df\<lparr> rows := map (\<lambda>r. (VStr (py_str rt (fst r)), snd r)) (rows df) \<rparr>)"

subsection \<open>\<open>normalize_statement\<close> (1Financialstatements.py)\<close>

definition statement_methods :: "string list" where
  "statement_methods = [''get_dataframe'', ''to_pandas'', ''to_dataframe'']"

text \<open>
  The loop returns the result of calling the first attribute that is present, whatever it
  is; \<open>None\<close> when no name is present.
\<close>

fun call_first_present :: "pyobj \<Rightarrow> string list \<Rightarrow> (error + pyobj) option" where
  "call_first_present stmt [] = None"
| "call_first_present stmt (attr # rest) =
     (case py_getattr stmt attr of
        None \<Rightarrow> call_first_present stmt rest
      | Some fn \<Rightarrow> Some (py_call fn))"

definition normalize_statement :: "pyobj \<Rightarrow> error + pyobj" where
  "normalize_statement stmt0 =
     (case (case call_outcome stmt0 of
              None \<Rightarrow> Inr stmt0
            | Some (Returns v) \<Rightarrow> Inr v
            | Some (Raises e) \<Rightarrow> Inl e) of
        Inl e \<Rightarrow> Inl e
      | Inr stmt \<Rightarrow>
         (case call_first_present stmt statement_methods of
            Some res \<Rightarrow> res
          | None \<Rightarrow>
             (case as_dataframe stmt of
                Some df \<Rightarrow> Inr stmt
              | None \<Rightarrow> Inl (TypeError (''Unexpected statement type: '' @ type_repr stmt)))))"

section \<open>A reference runtime for evaluation\<close>

text \<open>
  Concrete builtins, for evaluating the model on concrete tables. \<open>float\<close> of an int
  overflows from \<open>2^1024 - 2^970\<close> on, as in CPython; below that the exact value is kept
  (the rounding beyond \<open>2^53\<close> is left out). \<open>float\<close> of a str reads unsigned decimal
  digits only, and \<open>str\<close> of a float prints integral values only. Division is exact: the
  rounding of a quotient to a double is left out, so \<open>Finite q\<close> with \<open>q\<close> not a double
  stands for the double nearest to \<open>q\<close>. No statement below rests on the digits of such a
  quotient, on \<open>float\<close> of a str with a sign, a fraction or an exponent, or on \<open>str\<close> of a
  float that is not integral.
\<close>

definition digit_value :: "char \<Rightarrow> nat option" where
  "digit_value c = map_of (zip ''0123456789'' [0 ..< 10]) c"

fun digits_value :: "nat \<Rightarrow> string \<Rightarrow> nat option" where
  "digits_value acc [] = Some acc"
| "digits_value acc (c # cs) =
     (case digit_value c of None \<Rightarrow> None | Some d \<Rightarrow> digits_value (10 * acc + d) cs)"

definition ref_float_div :: "pyfloat \<Rightarrow> pyfloat \<Rightarrow> pyfloat" where
  "ref_float_div a b =
     (case (a, b) of
        (Finite x, Finite y) \<Rightarrow> Finite (x / y)
      | (Finite x, PosInf) \<Rightarrow> Finite 0
      | (Finite x, NegInf) \<Rightarrow> Finite 0
      | (PosInf, Finite y) \<Rightarrow> (if 0 < y then PosInf else NegInf)
      | (NegInf, Finite y) \<Rightarrow> (if 0 < y then NegInf else PosInf)
      | _ \<Rightarrow> NaN)"

definition ref_builtins :: py_builtins where
  "ref_builtins =
     \<lparr> float_of_int = (\<lambda>i. if \<bar>i\<bar> < 2 ^ 1024 - 2 ^ 970 then Some (Finite (of_int i)) else None),
       float_of_str = (\<lambda>s. if s = [] then None
                            else map_option (\<lambda>n. Finite (of_nat n)) (digits_value 0 s)),
       str_of_float = (\<lambda>x. case x of
                              Finite q \<Rightarrow> str_of_int \<lfloor>q\<rfloor> @ ''.0''
                            | PosInf \<Rightarrow> ''inf''
                            | NegInf \<Rightarrow> ''-inf''
                            | NaN \<Rightarrow> ''nan''),
       float_div = ref_float_div \<rparr>"

text \<open>A pandas that builds no table from records.\<close>

definition ref_pandas :: pandas_api where
  "ref_pandas =
     \<lparr> DataFrame_new = (\<lambda>x. Inl (ValueError ''DataFrame constructor not properly called!'')),
       json_normalize = (\<lambda>d. Inl (ValueError ''not normalizable'')) \<rparr>"

section \<open>Notions used to state the properties\<close>



text \<open>What the constructor's loop makes of one table.\<close>

definition promoted :: "dataframe \<Rightarrow> dataframe" where
  "promoted df = (if ''period'' \<in> set (columns df) then set_index ''period'' df else df)"

text \<open>
  A canonical table, in the words of the specification: the rows are keyed by a unique
  string period (the period is the row key and no column any more), and the columns are
  named after financial line items. A line item does not bear the name of a conversion
  method.
\<close>

definition line_item :: "string \<Rightarrow> bool" where
  "line_item c \<longleftrightarrow>
     c \<noteq> ''period'' \<and> c \<notin> set statement_methods \<and> c \<notin> set conversion_methods"

fun is_period_key :: "pyval \<Rightarrow> bool" where
  "is_period_key (VStr s) = True"
| "is_period_key v = False"

definition canonical_table :: "dataframe \<Rightarrow> bool" where
  "canonical_table df \<longleftrightarrow>
     list_all is_period_key (index df) \<and> distinct (index df)
     \<and> list_all line_item (columns df) \<and> distinct (columns df)"

section \<open>Example tables\<close>

text \<open>The end-to-end scenario: two quarters, the second without current liabilities.\<close>

definition example_balance_sheet :: dataframe where
  "example_balance_sheet =
     \<lparr> columns = [''period'', ''current_assets'', ''current_liabilities'', ''total_assets''],
       rows = [(VInt 0, [VStr ''2023Q1'', VInt 200, VInt 100, VInt 1000]),
               (VInt 1, [VStr ''2023Q2'', VInt 150, VInt 0, VInt 900])] \<rparr>"

definition example_income_stmt :: dataframe where
  "example_income_stmt =
     \<lparr> columns = [''period'', ''net_income''],
       rows = [(VInt 0, [VStr ''2023Q1'', VInt 50]), (VInt 1, [VStr ''2023Q2'', VInt 45])] \<rparr>"

definition example_heap :: heap where
  "example_heap =
     \<lparr> frames = (\<lambda>a. if a = 0 then example_balance_sheet else example_income_stmt),
       next_addr = 2 \<rparr>"

definition example_engine :: "heap \<times> FinancialRatioAnalyzer" where
  "example_engine = FinancialRatioAnalyzer_init ref_builtins example_heap 0 1 None None"




text \<open>The same tables with a caller-supplied Period Set that is neither sorted nor covered.\<close>

definition reversed_engine :: "heap \<times> FinancialRatioAnalyzer" where
  "reversed_engine =
     FinancialRatioAnalyzer_init ref_builtins example_heap 0 1 None
       (Some [''2023Q2'', ''2024Q1'', ''2023Q1''])"

text \<open>The scenario with a cash flow statement.\<close>

definition example_cash_flow :: dataframe where
  "example_cash_flow =
     \<lparr> columns = [''period'', ''operating_cash_flow''],
       rows = [(VInt 0, [VStr ''2023Q1'', VInt 70]), (VInt 1, [VStr ''2023Q2'', VInt 65])] \<rparr>"

definition cash_flow_heap :: heap where
  "cash_flow_heap =
     \<lparr> frames = (\<lambda>a. if a = 0 then example_balance_sheet
                      else if a = 1 then example_income_stmt else example_cash_flow),
       next_addr = 3 \<rparr>"

definition cash_flow_engine :: "heap \<times> FinancialRatioAnalyzer" where
  "cash_flow_engine = FinancialRatioAnalyzer_init ref_builtins cash_flow_heap 0 1 (Some 2) None"

text \<open>Tables that lack required columns.\<close>

definition bare_balance_sheet :: dataframe where
  "bare_balance_sheet =
     \<lparr> columns = [''period'', ''current_assets''],
       rows = [(VInt 0, [VStr ''2023Q1'', VInt 200])] \<rparr>"

definition bare_income_stmt :: dataframe where
  "bare_income_stmt =
     \<lparr> columns = [''period'', ''revenue''],
       rows = [(VInt 0, [VStr ''2023Q1'', VInt 500])] \<rparr>"

definition bare_engine :: "heap \<times> FinancialRatioAnalyzer" where
  "bare_engine =
     FinancialRatioAnalyzer_init ref_builtins
       \<lparr> frames = (\<lambda>a. if a = 0 then bare_balance_sheet else bare_income_stmt),
         next_addr = 2 \<rparr> 0 1 None None"

definition partial_engine :: "heap \<times> FinancialRatioAnalyzer" where
  "partial_engine =
     FinancialRatioAnalyzer_init ref_builtins
       \<lparr> frames = (\<lambda>a. if a = 0 then bare_balance_sheet else example_income_stmt),
         next_addr = 2 \<rparr> 0 1 None None"

text \<open>Tables whose period column holds fiscal years as ints.\<close>

definition fiscal_year_balance_sheet :: dataframe where
  "fiscal_year_balance_sheet =
     \<lparr> columns = [''period'', ''current_assets'', ''current_liabilities'', ''total_assets''],
       rows = [(VInt 0, [VInt 2022, VInt 200, VInt 100, VInt 1000]),
               (VInt 1, [VInt 2023, VInt 150, VInt 60, VInt 900])] \<rparr>"

definition fiscal_year_income_stmt :: dataframe where
  "fiscal_year_income_stmt =
     \<lparr> columns = [''period'', ''net_income''],
       rows = [(VInt 0, [VInt 2022, VInt 50]), (VInt 1, [VInt 2023, VInt 45])] \<rparr>"

definition fiscal_year_heap :: heap where
  "fiscal_year_heap =
     \<lparr> frames = (\<lambda>a. if a = 0 then fiscal_year_balance_sheet else fiscal_year_income_stmt),
       next_addr = 2 \<rparr>"

definition fiscal_year_engine :: "heap \<times> FinancialRatioAnalyzer" where
  "fiscal_year_engine = FinancialRatioAnalyzer_init ref_builtins fiscal_year_heap 0 1 None None"

definition fiscal_year_engine_2021 :: "heap \<times> FinancialRatioAnalyzer" where
  "fiscal_year_engine_2021 =
     FinancialRatioAnalyzer_init ref_builtins fiscal_year_heap 0 1 None
       (Some [''2021'', ''2022'', ''2023''])"

text \<open>A balance sheet with a Python int too large for a double in two cells.\<close>

definition huge_int :: int where
  "huge_int = 10 ^ 400"

definition huge_balance_sheet :: dataframe where
  "huge_balance_sheet =
     \<lparr> columns = [''period'', ''current_assets'', ''current_liabilities'', ''total_assets''],
       rows = [(VInt 0, [VStr ''2023Q1'', VInt 200, VInt 100, VInt 1000]),
               (VInt 1, [VStr ''2023Q2'', VInt huge_int, VInt 60, VInt huge_int])] \<rparr>"

definition huge_engine :: "heap \<times> FinancialRatioAnalyzer" where
  "huge_engine =
     FinancialRatioAnalyzer_init ref_builtins
       \<lparr> frames = (\<lambda>a. if a = 0 then huge_balance_sheet else example_income_stmt),
         next_addr = 2 \<rparr> 0 1 None None"

section \<open>Example statement values\<close>





text \<open>An object that offers nothing to the coercion.\<close>

definition opaque_statement :: pyobj where
  "opaque_statement = Obj ''Widget'' None [] None"

text \<open>A table with a column whose label is the name of a conversion method.\<close>

definition export_log :: dataframe where
  "export_log =
     \<lparr> columns = [''period'', ''to_pandas''],
       rows = [(VInt 0, [VStr ''2023Q1'', VInt 3])] \<rparr>"

text \<open>A dict of scalars, from which pandas builds no table.\<close>

definition scalar_dict :: pyobj where
  "scalar_dict = PyDict [(''net_income'', PyVal (VInt 50))]"

text \<open>The example balance sheet as \<open>fetch_and_prepare_statements\<close> hands it over.\<close>

definition canonical_balance_sheet :: dataframe where
  "canonical_balance_sheet = normalize_df ref_builtins example_balance_sheet"







section \<open>The ratio loops\<close>





lemma loc_in_index: "loc df p = Inr row \<Longrightarrow> p \<in> set (index_astype_str rt df)"
proof -
  assume a: "loc df p = Inr row"
  have "filter (\<lambda>r. fst r = VStr p) (rows df) \<noteq> []"
    using a by (auto simp: loc_def split: list.splits)
  then obtain r where "r \<in> set (rows df)" "fst r = VStr p"
    by (auto simp: filter_empty_conv)
  then have "py_str rt (fst r) = p" "fst r \<in> set (index df)"
    unfolding index_def by (simp, metis image_eqI list.set_map)
  then show ?thesis
    unfolding index_astype_str_def by force
qed


lemma current_ratio_body_result:
  "current_ratio_body rt bs q = Inr (Some r) \<Longrightarrow> period r = q \<and> name r = ''Current Ratio''"
  by (auto simp: current_ratio_body_def split: if_splits sum.splits)

lemma return_on_assets_body_result:
  "return_on_assets_body rt inc bs q = Inr (Some r) \<Longrightarrow> period r = q \<and> name r = ''Return on Assets''"
  by (auto simp: return_on_assets_body_def split: if_splits sum.splits)





section \<open>Zero denominators\<close>



section \<open>The constructor\<close>

lemma promote_period_frames:
  "frames (promote_period h a) b = (if b = a then promoted (frames h a) else frames h b)"
  by (simp add: promote_period_def promoted_def)

lemma init_analyzer:
  "snd (FinancialRatioAnalyzer_init rt h bs inc cf ps) =
     \<lparr> balance_sheet = next_addr h, income_stmt = Suc (next_addr h),
       cash_flow = map_option (\<lambda>c. Suc (Suc (next_addr h))) cf,
       periods = (case ps of
                    Some given \<Rightarrow> given
                  | None \<Rightarrow>
                     sorted_list_of_set
                       (set (index_astype_str rt
                               (frames (fst (FinancialRatioAnalyzer_init rt h bs inc cf ps)) (next_addr h)))
                        \<inter> set (index_astype_str rt
                               (frames (fst (FinancialRatioAnalyzer_init rt h bs inc cf ps))
                                  (Suc (next_addr h)))))) \<rparr>"
  by (cases cf; cases ps) (simp_all add: FinancialRatioAnalyzer_init_def df_copy_def Let_def)

lemma init_old_frames:
  "a < next_addr h \<Longrightarrow> frames (fst (FinancialRatioAnalyzer_init rt h bs inc cf ps)) a = frames h a"
  by (cases cf)
     (simp_all add: FinancialRatioAnalyzer_init_def df_copy_def Let_def promote_period_frames)

lemma init_copies:
  assumes "bs < next_addr h" and "inc < next_addr h"
  shows "frames (fst (FinancialRatioAnalyzer_init rt h bs inc cf ps)) (next_addr h)
           = promoted (frames h bs)"
    and "frames (fst (FinancialRatioAnalyzer_init rt h bs inc cf ps)) (Suc (next_addr h))
           = promoted (frames h inc)"
  using assms
  by (cases cf; simp add: FinancialRatioAnalyzer_init_def df_copy_def Let_def promote_period_frames)+

lemma ratio_loop_subseq:
  assumes tag: "\<And>q r. body q = Inr (Some r) \<Longrightarrow> period r = q"
  shows "ratio_loop body ps acc = Inr rs \<Longrightarrow> \<exists>rs'. rs = acc @ rs' \<and> subseq (map period rs') ps"
proof (induction ps arbitrary: acc)
  case Nil
  then show ?case by simp
next
  case (Cons q ps)
  show ?case
  proof (cases "body q")
    case (Inl e)
    with Cons.prems show ?thesis by simp
  next
    case (Inr out)
    show ?thesis
    proof (cases out)
      case None
      with Inr Cons.prems have "ratio_loop body ps acc = Inr rs" by simp
      from Cons.IH [OF this] show ?thesis by auto
    next
      case (Some r)
      with Inr Cons.prems have "ratio_loop body ps (acc @ [r]) = Inr rs" by simp
      from Cons.IH [OF this] obtain rs' where "rs = (acc @ [r]) @ rs'" "subseq (map period rs') ps"
        by blast
      moreover have "period r = q" using tag Inr Some by simp
      ultimately have "rs = acc @ (r # rs')" "subseq (map period (r # rs')) (q # ps)"
        by simp_all
      then show ?thesis by blast
    qed
  qed
qed

lemma calculate_current_ratio_subseq:
  "calculate_current_ratio rt g a = Inr rs \<Longrightarrow> subseq (map period rs) (periods a)"
proof -
  assume r: "calculate_current_ratio rt g a = Inr rs"
  let ?bs = "frames g (balance_sheet a)"
  from r have "ratio_loop (current_ratio_body rt ?bs) (periods a) [] = Inr rs"
    by (auto simp: calculate_current_ratio_def Let_def split: sum.splits)
  from ratio_loop_subseq [OF _ this] show ?thesis
    by (auto simp: current_ratio_body_result)
qed

lemma calculate_return_on_assets_subseq:
  "calculate_return_on_assets rt g a = Inr rs \<Longrightarrow> subseq (map period rs) (periods a)"
proof -
  assume r: "calculate_return_on_assets rt g a = Inr rs"
  let ?bs = "frames g (balance_sheet a)"
  let ?inc = "frames g (income_stmt a)"
  from r have "ratio_loop (return_on_assets_body rt ?inc ?bs) (periods a) [] = Inr rs"
    by (auto simp: calculate_return_on_assets_def Let_def split: sum.splits)
  from ratio_loop_subseq [OF _ this] show ?thesis
    by (auto simp: return_on_assets_body_result)
qed

section \<open>The Period Set and the order of the results\<close>

text \<open>
  C5. A caller-supplied periods list is taken as the Period Set as it is. Without one, the
  Period Set is the intersection of the \<open>str\<close> forms of the row labels of the engine's
  balance sheet and income statement, as a duplicate-free list sorted in the lexicographic
  order of strings (strings are byte strings here; on UTF-8 the order of the bytes is
  Python's order of the code points). Whatever the Period Set is, a returned result list of either ratio
  operation follows its order: the periods of the results are a subsequence of it.
\<close>

theorem period_set_and_result_order:
  "periods (snd (FinancialRatioAnalyzer_init rt h bs inc cf (Some given))) = given
   \<and> (let engine = FinancialRatioAnalyzer_init rt h bs inc cf None;
           bs_periods = set (index_astype_str rt (frames (fst engine) (balance_sheet (snd engine))));
           is_periods = set (index_astype_str rt (frames (fst engine) (income_stmt (snd engine))))
       in set (periods (snd engine)) = bs_periods \<inter> is_periods
          \<and> sorted (periods (snd engine)) \<and> distinct (periods (snd engine)))
   \<and> (calculate_current_ratio rt g self = Inr rs \<longrightarrow> subseq (map period rs) (periods self))
   \<and> (calculate_return_on_assets rt g self = Inr rs' \<longrightarrow> subseq (map period rs') (periods self))"
proof (intro conjI impI)
  show "periods (snd (FinancialRatioAnalyzer_init rt h bs inc cf (Some given))) = given"
    by (simp add: init_analyzer)
next
  show "let engine = FinancialRatioAnalyzer_init rt h bs inc cf None;
           bs_periods = set (index_astype_str rt (frames (fst engine) (balance_sheet (snd engine))));
           is_periods = set (index_astype_str rt (frames (fst engine) (income_stmt (snd engine))))
       in set (periods (snd engine)) = bs_periods \<inter> is_periods
          \<and> sorted (periods (snd engine)) \<and> distinct (periods (snd engine))"
    by (simp add: Let_def init_analyzer)
next
  assume "calculate_current_ratio rt g self = Inr rs"
  then show "subseq (map period rs) (periods self)"
    by (rule calculate_current_ratio_subseq)
next
  assume "calculate_return_on_assets rt g self = Inr rs'"
  then show "subseq (map period rs') (periods self)"
    by (rule calculate_return_on_assets_subseq)
qed

theorem period_set_and_result_order_witness:
  "periods (snd reversed_engine) = [''2023Q2'', ''2024Q1'', ''2023Q1'']
   \<and> periods (snd example_engine) = [''2023Q1'', ''2023Q2'']
   \<and> calculate_current_ratio ref_builtins (fst reversed_engine) (snd reversed_engine)
       = Inr [\<lparr> name = ''Current Ratio'', period = ''2023Q2'', result = PosInf \<rparr>,
              \<lparr> name = ''Current Ratio'', period = ''2023Q1'', result = Finite 2 \<rparr>]
   \<and> subseq [''2023Q2'', ''2023Q1''] (periods (snd reversed_engine))
   \<and> map_sum id (map period)
         (calculate_return_on_assets ref_builtins (fst reversed_engine) (snd reversed_engine))
       = Inr [''2023Q2'', ''2023Q1'']"
proof -
  have cr: "calculate_current_ratio ref_builtins (fst reversed_engine) (snd reversed_engine)
       = Inr [\<lparr> name = ''Current Ratio'', period = ''2023Q2'', result = PosInf \<rparr>,
              \<lparr> name = ''Current Ratio'', period = ''2023Q1'', result = Finite 2 \<rparr>]"
    by code_simp
  have roa: "map_sum id (map period)
         (calculate_return_on_assets ref_builtins (fst reversed_engine) (snd reversed_engine))
       = Inr [''2023Q2'', ''2023Q1'']"
    by code_simp
  have ex: "periods (snd example_engine) = [''2023Q1'', ''2023Q2'']"
    by code_simp
  note inst = period_set_and_result_order
       [where rt = ref_builtins and h = example_heap and bs = 0 and inc = 1 and cf = None
          and given = "[''2023Q2'', ''2024Q1'', ''2023Q1'']"
          and g = "fst reversed_engine" and self = "snd reversed_engine"]
  from inst have given: "periods (snd reversed_engine) = [''2023Q2'', ''2024Q1'', ''2023Q1'']"
    unfolding reversed_engine_def by blast
  from inst cr have "subseq (map period [\<lparr> name = ''Current Ratio'', period = ''2023Q2'', result = PosInf \<rparr>,
              \<lparr> name = ''Current Ratio'', period = ''2023Q1'', result = Finite 2 \<rparr>])
           (periods (snd reversed_engine))"
    by blast
  then have sub: "subseq [''2023Q2'', ''2023Q1''] (periods (snd reversed_engine))"
    by simp
  from given ex cr sub roa show ?thesis by blast
qed

section \<open>The caller's tables\<close>

text \<open>
  C9. The constructor leaves every object that existed before the call as it was: the
  engine's balance sheet, income statement and cash flow are objects allocated by the call
  (copies), and only they are changed. The ratio operations write nothing and read only the
  engine's own balance sheet and income statement: on two heaps that agree there they
  return the same.
\<close>

theorem inputs_never_mutated:
  "(\<forall>a. a < next_addr h \<longrightarrow>
         frames (fst (FinancialRatioAnalyzer_init rt h bs inc cf ps)) a = frames h a)
   \<and> next_addr h \<le> balance_sheet (snd (FinancialRatioAnalyzer_init rt h bs inc cf ps))
   \<and> next_addr h \<le> income_stmt (snd (FinancialRatioAnalyzer_init rt h bs inc cf ps))
   \<and> (\<forall>c. cash_flow (snd (FinancialRatioAnalyzer_init rt h bs inc cf ps)) = Some c
          \<longrightarrow> next_addr h \<le> c)
   \<and> (\<forall>g self. frames g (balance_sheet self) = frames g' (balance_sheet self)
          \<and> frames g (income_stmt self) = frames g' (income_stmt self)
          \<longrightarrow> calculate_current_ratio rt g self = calculate_current_ratio rt g' self
              \<and> calculate_return_on_assets rt g self = calculate_return_on_assets rt g' self)"
  by (auto simp: init_old_frames init_analyzer calculate_current_ratio_def
        calculate_return_on_assets_def)

theorem inputs_never_mutated_witness:
  "frames (fst cash_flow_engine) 0 = example_balance_sheet
   \<and> frames (fst cash_flow_engine) 1 = example_income_stmt
   \<and> frames (fst cash_flow_engine) 2 = example_cash_flow
   \<and> snd cash_flow_engine
       = \<lparr> balance_sheet = 3, income_stmt = 4, cash_flow = Some 5,
           periods = [''2023Q1'', ''2023Q2''] \<rparr>
   \<and> columns (frames (fst cash_flow_engine) 3)
       = [''current_assets'', ''current_liabilities'', ''total_assets'']
   \<and> index (frames (fst cash_flow_engine) 5) = [VStr ''2023Q1'', VStr ''2023Q2'']"
proof -
  note inst = inputs_never_mutated
       [where rt = ref_builtins and h = cash_flow_heap and bs = 0 and inc = 1 and cf = "Some 2"
          and ps = None, folded cash_flow_engine_def]
  have n: "next_addr cash_flow_heap = 3"
    by (simp add: cash_flow_heap_def)
  from inst n have old: "\<And>a. a < 3 \<Longrightarrow> frames (fst cash_flow_engine) a = frames cash_flow_heap a"
    by simp
  have "frames (fst cash_flow_engine) 0 = example_balance_sheet"
    "frames (fst cash_flow_engine) 1 = example_income_stmt"
    "frames (fst cash_flow_engine) 2 = example_cash_flow"
    by (simp_all add: old cash_flow_heap_def)
  moreover have "snd cash_flow_engine
       = \<lparr> balance_sheet = 3, income_stmt = 4, cash_flow = Some 5,
           periods = [''2023Q1'', ''2023Q2''] \<rparr>"
    by code_simp
  moreover have "columns (frames (fst cash_flow_engine) 3)
       = [''current_assets'', ''current_liabilities'', ''total_assets'']"
    by code_simp
  moreover have "index (frames (fst cash_flow_engine) 5) = [VStr ''2023Q1'', VStr ''2023Q2'']"
    by code_simp
  ultimately show ?thesis by blast
qed

section \<open>Coercing \<open>None\<close>\<close>

text \<open>
  C10. For every label, and whatever pandas would build, \<open>ensure_dataframe\<close> on \<open>None\<close>
  returns no table: it raises the TypeError whose message is the label followed by
  \<open>is None\<close>. The outcome does not depend on any conversion strategy.
\<close>

theorem null_input_is_type_error:
  "ensure_dataframe pd (PyVal VNone) label = Inl (TypeError (label @ '' is None''))"
  by (simp add: ensure_dataframe_def)

section \<open>Missing columns\<close>

lemma sublist_suffix_part: "sublist s m \<Longrightarrow> sublist s (pre @ m)"
proof -
  assume "sublist s m"
  then obtain ps ss where "m = ps @ s @ ss"
    by (auto simp: sublist_def)
  then have "pre @ m = (pre @ ps) @ s @ ss" by simp
  then show ?thesis
    unfolding sublist_def by blast
qed

lemma sublist_join_comma: "s \<in> set ss \<Longrightarrow> sublist s (join_comma ss)"
proof (induction ss rule: join_comma.induct)
  case 1
  then show ?case by simp
next
  case (2 t)
  then show ?case by simp
next
  case (3 t u ss)
  show ?case
  proof (cases "s = t")
    case True
    then show ?thesis by simp
  next
    case False
    with 3 have "sublist s (join_comma (u # ss))" by simp
    then have "sublist s ((t @ '', '') @ join_comma (u # ss))"
      by (rule sublist_suffix_part)
    then show ?thesis by simp
  qed
qed

lemma sublist_py_repr_list: "c \<in> set ms \<Longrightarrow> sublist (py_repr_str c) (py_repr_list ms)"
proof -
  assume "c \<in> set ms"
  then have "py_repr_str c \<in> set (map py_repr_str ms)" by simp
  then have "sublist (py_repr_str c) (join_comma (map py_repr_str ms))"
    by (rule sublist_join_comma)
  then obtain ps ss where "join_comma (map py_repr_str ms) = ps @ py_repr_str c @ ss"
    by (auto simp: sublist_def)
  then have "py_repr_list ms = (''['' @ ps) @ py_repr_str c @ (ss @ '']'')"
    by (simp add: py_repr_list_def)
  then show ?thesis
    unfolding sublist_def by blast
qed

lemma require_columns_missing:
  "filter (\<lambda>c. c \<notin> set (columns df)) cols \<noteq> [] \<Longrightarrow>
   require_columns df cols nm =
     Inl (ValueError (nm @ '' missing columns: ''
                      @ py_repr_list (filter (\<lambda>c. c \<notin> set (columns df)) cols)))"
  by (simp add: require_columns_def Let_def)

text \<open>
  C2, as the code has it. The columns are checked before the loop over the periods, so a
  missing required column fails the call with a ValueError (the SchemaError of the
  specification) whatever the periods and rows are, and no result is produced. The message
  names one table and lists every required column missing from that table. For
  \<open>calculate_current_ratio\<close> that is every missing required column of the call. For
  \<open>calculate_return_on_assets\<close> the income statement is checked first: a missing
  \<open>net_income\<close> is reported alone, and a missing \<open>total_assets\<close> is reported when
  \<open>net_income\<close> is present.
\<close>

theorem missing_columns_fail_eagerly:
  "(let bs = frames h (balance_sheet self);
        missing = filter (\<lambda>c. c \<notin> set (columns bs)) [''current_assets'', ''current_liabilities''];
        message = ''balance_sheet missing columns: '' @ py_repr_list missing
    in missing \<noteq> [] \<longrightarrow>
         calculate_current_ratio rt h self = Inl (ValueError message)
         \<and> (\<forall>c\<in>set missing. sublist (py_repr_str c) message))
   \<and> (''net_income'' \<notin> set (columns (frames h (income_stmt self))) \<longrightarrow>
         calculate_return_on_assets rt h self
           = Inl (ValueError (''income_stmt missing columns: '' @ py_repr_list [''net_income''])))
   \<and> (''net_income'' \<in> set (columns (frames h (income_stmt self)))
         \<and> ''total_assets'' \<notin> set (columns (frames h (balance_sheet self))) \<longrightarrow>
         calculate_return_on_assets rt h self
           = Inl (ValueError (''balance_sheet missing columns: '' @ py_repr_list [''total_assets''])))"
proof (intro conjI)
  let ?bs = "frames h (balance_sheet self)"
  let ?missing = "filter (\<lambda>c. c \<notin> set (columns ?bs)) [''current_assets'', ''current_liabilities'']"
  let ?message = "''balance_sheet missing columns: '' @ py_repr_list ?missing"
  have "?missing \<noteq> [] \<longrightarrow>
         calculate_current_ratio rt h self = Inl (ValueError ?message)
         \<and> (\<forall>c\<in>set ?missing. sublist (py_repr_str c) ?message)"
  proof (intro impI conjI ballI)
    assume m: "?missing \<noteq> []"
    from require_columns_missing [OF m, of "''balance_sheet''"]
    show "calculate_current_ratio rt h self = Inl (ValueError ?message)"
      by (simp add: calculate_current_ratio_def Let_def)
  next
    fix c assume "c \<in> set ?missing"
    then have "sublist (py_repr_str c) (py_repr_list ?missing)"
      by (rule sublist_py_repr_list)
    then show "sublist (py_repr_str c) ?message"
      by (rule sublist_suffix_part)
  qed
  then show "let bs = frames h (balance_sheet self);
        missing = filter (\<lambda>c. c \<notin> set (columns bs)) [''current_assets'', ''current_liabilities''];
        message = ''balance_sheet missing columns: '' @ py_repr_list missing
    in missing \<noteq> [] \<longrightarrow>
         calculate_current_ratio rt h self = Inl (ValueError message)
         \<and> (\<forall>c\<in>set missing. sublist (py_repr_str c) message)"
    unfolding Let_def .
next
  show "''net_income'' \<notin> set (columns (frames h (income_stmt self))) \<longrightarrow>
         calculate_return_on_assets rt h self
           = Inl (ValueError (''income_stmt missing columns: '' @ py_repr_list [''net_income'']))"
    by (simp add: calculate_return_on_assets_def Let_def require_columns_def)
next
  show "''net_income'' \<in> set (columns (frames h (income_stmt self)))
         \<and> ''total_assets'' \<notin> set (columns (frames h (balance_sheet self))) \<longrightarrow>
         calculate_return_on_assets rt h self
           = Inl (ValueError (''balance_sheet missing columns: '' @ py_repr_list [''total_assets'']))"
    by (simp add: calculate_return_on_assets_def Let_def require_columns_def)
qed

theorem missing_columns_fail_eagerly_witness:
  "calculate_current_ratio ref_builtins (fst bare_engine) (snd bare_engine)
     = Inl (ValueError (''balance_sheet missing columns: ['' @ quote # ''current_liabilities''
                        @ quote # '']''))
   \<and> sublist (quote # ''current_liabilities'' @ [quote])
        (''balance_sheet missing columns: ['' @ quote # ''current_liabilities'' @ quote # '']'')
   \<and> calculate_return_on_assets ref_builtins (fst bare_engine) (snd bare_engine)
       = Inl (ValueError (''income_stmt missing columns: ['' @ quote # ''net_income'' @ quote # '']''))
   \<and> calculate_return_on_assets ref_builtins (fst partial_engine)
        (snd partial_engine)
       = Inl (ValueError (''balance_sheet missing columns: ['' @ quote # ''total_assets'' @ quote # '']''))"
proof -
  note inst = missing_columns_fail_eagerly
       [where rt = ref_builtins and h = "fst bare_engine" and self = "snd bare_engine"]
  note inst2 = missing_columns_fail_eagerly
       [where rt = ref_builtins and h = "fst partial_engine"
          and self = "snd partial_engine"]
  have m: "filter (\<lambda>c. c \<notin> set (columns (frames (fst bare_engine) (balance_sheet (snd bare_engine)))))
             [''current_assets'', ''current_liabilities''] = [''current_liabilities'']"
    by code_simp
  have n: "''net_income'' \<notin> set (columns (frames (fst bare_engine) (income_stmt (snd bare_engine))))"
    by code_simp
  have t: "''net_income'' \<in> set (columns (frames (fst partial_engine)
              (income_stmt (snd partial_engine))))
         \<and> ''total_assets'' \<notin> set (columns (frames (fst partial_engine)
              (balance_sheet (snd partial_engine))))"
    by code_simp
  from inst m have "calculate_current_ratio ref_builtins (fst bare_engine) (snd bare_engine)
     = Inl (ValueError (''balance_sheet missing columns: '' @ py_repr_list [''current_liabilities'']))
    \<and> sublist (py_repr_str ''current_liabilities'')
        (''balance_sheet missing columns: '' @ py_repr_list [''current_liabilities''])"
    by (simp add: Let_def)
  moreover from inst n have "calculate_return_on_assets ref_builtins (fst bare_engine) (snd bare_engine)
       = Inl (ValueError (''income_stmt missing columns: '' @ py_repr_list [''net_income'']))"
    by blast
  moreover from inst2 t have "calculate_return_on_assets ref_builtins (fst partial_engine)
        (snd partial_engine)
       = Inl (ValueError (''balance_sheet missing columns: '' @ py_repr_list [''total_assets'']))"
    by blast
  ultimately show ?thesis
    by (simp add: py_repr_list_def py_repr_str_def)
qed

text \<open>
  C2 as stated fails: with \<open>net_income\<close> and \<open>total_assets\<close> both missing, the message of
  \<open>calculate_return_on_assets\<close> does not list \<open>total_assets\<close>.
\<close>

theorem missing_columns_counterexample:
  "''net_income'' \<notin> set (columns (frames (fst bare_engine) (income_stmt (snd bare_engine))))
   \<and> ''total_assets'' \<notin> set (columns (frames (fst bare_engine) (balance_sheet (snd bare_engine))))
   \<and> calculate_return_on_assets ref_builtins (fst bare_engine) (snd bare_engine)
       = Inl (ValueError (''income_stmt missing columns: ['' @ quote # ''net_income'' @ quote # '']''))
   \<and> \<not> sublist ''total_assets''
         (''income_stmt missing columns: ['' @ quote # ''net_income'' @ quote # '']'')"
  by code_simp

section \<open>Row keys and lookups\<close>

lemma str_2022: "str_of_int 2022 = ''2022''" "str_of_int 2023 = ''2023''"
  by (simp_all add: str_of_int_def str_of_nat.simps digit_char_def)

lemmas frame_simps = index_astype_str_def index_def set_index_def cells_at_def loc_def
  float_item_def require_columns_def

lemma fiscal_year_engine_eq:
  "fiscal_year_engine =
   (\<lparr> frames = (frames fiscal_year_heap)
          (2 := set_index ''period'' fiscal_year_balance_sheet,
           3 := set_index ''period'' fiscal_year_income_stmt), next_addr = 4 \<rparr>,
    \<lparr> balance_sheet = 2, income_stmt = 3, cash_flow = None, periods = [''2022'', ''2023''] \<rparr>)"
  apply (simp add: fiscal_year_engine_def FinancialRatioAnalyzer_init_def df_copy_def Let_def
           promote_period_def fiscal_year_heap_def)
  apply (simp add: frame_simps fiscal_year_balance_sheet_def fiscal_year_income_stmt_def str_2022)
  done

lemma fiscal_year_engine_2021_eq:
  "fiscal_year_engine_2021 =
   (fst fiscal_year_engine, snd fiscal_year_engine \<lparr> periods := [''2021'', ''2022'', ''2023''] \<rparr>)"
  by (simp add: fiscal_year_engine_def fiscal_year_engine_2021_def FinancialRatioAnalyzer_init_def
        df_copy_def Let_def)

lemma normalize_df_index:
  "index (normalize_df rt df) = map (\<lambda>l. VStr (py_str rt l)) (index (promoted df))"
  by (simp add: normalize_df_def promoted_def index_def Let_def comp_def)

lemma normalize_df_lookup:
  assumes "p \<in> set (index_astype_str rt (normalize_df rt df))"
  shows "\<exists>sel. loc (normalize_df rt df) p = Inr sel"
proof -
  from assms obtain r where r: "r \<in> set (rows (normalize_df rt df))" and p: "py_str rt (fst r) = p"
    by (auto simp: index_astype_str_def index_def)
  from r have "fst r \<in> set (index (normalize_df rt df))"
    by (simp add: index_def)
  then obtain l where "fst r = VStr (py_str rt l)"
    by (auto simp: normalize_df_index)
  with p have "fst r = VStr p" by simp
  with r have "filter (\<lambda>r. fst r = VStr p) (rows (normalize_df rt df)) \<noteq> []"
    by (auto simp: filter_empty_conv)
  then show ?thesis
    by (auto simp: loc_def split: list.splits)
qed

lemma skipped_period_drops_out:
  "body p = Inr None \<Longrightarrow>
   ratio_loop body (ps1 @ p # ps2) acc = ratio_loop body (ps1 @ ps2) acc"
proof (induction ps1 arbitrary: acc)
  case Nil
  then show ?case by simp
next
  case (Cons q ps1)
  then show ?case
    by (cases "body q") (simp_all split: option.splits)
qed

lemma unconvertible_cell_skipped:
  assumes "loc bs p = Inr row"
    and "float_item rt (columns bs) row ''current_assets'' = Inl e
         \<or> (\<exists>x. float_item rt (columns bs) row ''current_assets'' = Inr x)
            \<and> float_item rt (columns bs) row ''current_liabilities'' = Inl e"
    and "caught e"
  shows "current_ratio_body rt bs p = Inr None"
  using assms loc_in_index [OF assms(1), of rt]
  by (auto simp: current_ratio_body_def)

lemma absent_period_skipped:
  "p \<notin> set (index_astype_str rt bs) \<Longrightarrow> current_ratio_body rt bs p = Inr None"
  "p \<notin> set (index_astype_str rt inc) \<or> p \<notin> set (index_astype_str rt bs) \<Longrightarrow>
   return_on_assets_body rt inc bs p = Inr None"
  by (auto simp: current_ratio_body_def return_on_assets_body_def)

text \<open>
  C3. \<open>_normalize\<close> of the fetch helper coerces every row label to its \<open>str\<close>
  (\<open>normalize_df_index\<close>), so a lookup by a period string that is among the keys finds its
  rows (\<open>normalize_df_lookup\<close>). The constructor of the analyzer promotes the period column
  but does not coerce the labels: on a balance sheet whose periods are the ints 2022 and
  2023 the row keys stay ints, the Period Set is made of their strings, and the lookup of
  \<open>''2023''\<close> is a KeyError that ends both ratio operations. The same table normalized by
  \<open>_normalize\<close> yields its row under \<open>''2023''\<close>.
\<close>

theorem engine_keys_not_coerced:
  "index (frames (fst fiscal_year_engine) (balance_sheet (snd fiscal_year_engine)))
     = [VInt 2022, VInt 2023]
   \<and> periods (snd fiscal_year_engine) = [''2022'', ''2023'']
   \<and> loc (frames (fst fiscal_year_engine) (balance_sheet (snd fiscal_year_engine))) ''2023''
       = Inl (KeyError ''2023'')
   \<and> calculate_current_ratio ref_builtins (fst fiscal_year_engine) (snd fiscal_year_engine)
       = Inl (KeyError ''2022'')
   \<and> calculate_return_on_assets ref_builtins (fst fiscal_year_engine) (snd fiscal_year_engine)
       = Inl (KeyError ''2022'')
   \<and> loc (normalize_df ref_builtins fiscal_year_balance_sheet) ''2023''
       = Inr [[VInt 150, VInt 60, VInt 900]]"
  by (simp add: fiscal_year_engine_eq calculate_current_ratio_def calculate_return_on_assets_def
        current_ratio_body_def return_on_assets_body_def normalize_df_def frame_simps
        fiscal_year_balance_sheet_def fiscal_year_income_stmt_def str_2022)

section \<open>Periods that are skipped\<close>

lemma huge_int_overflows: "float_of_int ref_builtins huge_int = None"
  by (simp add: ref_builtins_def huge_int_def)

lemma small_ints_convert:
  "float_of_int ref_builtins 200 = Some (Finite 200)"
  "float_of_int ref_builtins 100 = Some (Finite 100)"
  "float_of_int ref_builtins 1000 = Some (Finite 1000)"
  "float_of_int ref_builtins 50 = Some (Finite 50)"
  "float_of_int ref_builtins 45 = Some (Finite 45)"
  by (simp_all add: ref_builtins_def)

lemma huge_engine_eq:
  "huge_engine =
   (\<lparr> frames = (\<lambda>a. if a = 0 then huge_balance_sheet else example_income_stmt)
          (2 := set_index ''period'' huge_balance_sheet,
           3 := set_index ''period'' example_income_stmt), next_addr = 4 \<rparr>,
    \<lparr> balance_sheet = 2, income_stmt = 3, cash_flow = None, periods = [''2023Q1'', ''2023Q2''] \<rparr>)"
  apply (simp add: huge_engine_def FinancialRatioAnalyzer_init_def df_copy_def Let_def
           promote_period_def)
  apply (simp add: frame_simps huge_balance_sheet_def example_income_stmt_def)
  done

text \<open>
  C4. A period whose string is not among the string forms of the row labels is skipped
  (\<open>absent_period_skipped\<close>), and so is one whose cell raises a KeyError, TypeError or
  ValueError on conversion (\<open>unconvertible_cell_skipped\<close>); a skipped period leaves the rest
  of the loop as it is (\<open>skipped_period_drops_out\<close>), and where no pass raises the results
  are those of the other periods in order (\<open>ratio_loop_no_raise\<close>). But a pass can raise,
  against the claim:
  with fiscal years as int labels and the Period Set 2021, 2022, 2023, the period 2021 is
  skipped and the lookup of 2022 ends the call with a KeyError instead of yielding its
  result; and a cell holding an int too large for a double makes \<open>float\<close> raise an
  OverflowError, which the \<open>except\<close> clause does not catch, so the call ends instead of
  skipping that period.
\<close>

theorem dirty_period_fails_whole_call:
  "periods (snd fiscal_year_engine_2021) = [''2021'', ''2022'', ''2023'']
   \<and> ''2021'' \<notin> set (index_astype_str ref_builtins
                        (frames (fst fiscal_year_engine_2021) (balance_sheet (snd fiscal_year_engine_2021))))
   \<and> calculate_current_ratio ref_builtins (fst fiscal_year_engine_2021) (snd fiscal_year_engine_2021)
       = Inl (KeyError ''2022'')
   \<and> py_float ref_builtins (VInt huge_int)
       = Inl (OverflowError ''int too large to convert to float'')
   \<and> calculate_current_ratio ref_builtins (fst huge_engine) (snd huge_engine)
       = Inl (OverflowError ''int too large to convert to float'')
   \<and> calculate_return_on_assets ref_builtins (fst huge_engine) (snd huge_engine)
       = Inl (OverflowError ''int too large to convert to float'')"
proof -
  have a: "periods (snd fiscal_year_engine_2021) = [''2021'', ''2022'', ''2023'']
   \<and> ''2021'' \<notin> set (index_astype_str ref_builtins
                        (frames (fst fiscal_year_engine_2021) (balance_sheet (snd fiscal_year_engine_2021))))
   \<and> calculate_current_ratio ref_builtins (fst fiscal_year_engine_2021) (snd fiscal_year_engine_2021)
       = Inl (KeyError ''2022'')"
    by (simp add: fiscal_year_engine_2021_eq fiscal_year_engine_eq calculate_current_ratio_def
        current_ratio_body_def frame_simps
        fiscal_year_balance_sheet_def fiscal_year_income_stmt_def str_2022)
  have b: "py_float ref_builtins (VInt huge_int)
       = Inl (OverflowError ''int too large to convert to float'')"
    by (simp add: huge_int_overflows)
  have c: "calculate_current_ratio ref_builtins (fst huge_engine) (snd huge_engine)
       = Inl (OverflowError ''int too large to convert to float'')"
    by (simp add: huge_engine_eq calculate_current_ratio_def current_ratio_body_def frame_simps
          huge_balance_sheet_def huge_int_overflows small_ints_convert)
  have d: "calculate_return_on_assets ref_builtins (fst huge_engine) (snd huge_engine)
       = Inl (OverflowError ''int too large to convert to float'')"
    by (simp add: huge_engine_eq calculate_return_on_assets_def return_on_assets_body_def frame_simps
          huge_balance_sheet_def example_income_stmt_def huge_int_overflows small_ints_convert)
  from a b c d show ?thesis by blast
qed

section \<open>Probing conversion methods\<close>


lemma probe_methods_none:
  "\<forall>m\<in>set ms. try_method pd obj m = None \<Longrightarrow> probe_methods pd obj ms = None"
  by (induction ms) simp_all


lemma probe_attributes_none:
  "\<forall>a\<in>set as. (case py_getattr obj a of
                  None \<Rightarrow> True
                | Some v \<Rightarrow> as_dataframe v = None \<and> \<not> is_records v) \<Longrightarrow>
   probe_attributes pd obj as = Inr None"
  by (induction as) (auto split: option.splits)




section \<open>When every strategy fails\<close>

lemma conversion_failure_message_parts:
  "sublist label (conversion_failure_message label obj)"
  "sublist (type_repr obj) (conversion_failure_message label obj)"
  "sublist ''Inspect with: print(type('' (conversion_failure_message label obj)"
proof -
  show "sublist label (conversion_failure_message label obj)"
    by (simp add: conversion_failure_message_def)
  have "\<exists>b. conversion_failure_message label obj = (label @ '' is a '') @ type_repr obj @ b"
    by (simp add: conversion_failure_message_def)
  then show "sublist (type_repr obj) (conversion_failure_message label obj)"
    unfolding sublist_def by blast
  have "\<exists>b. conversion_failure_message label obj
          = (label @ '' is a '' @ type_repr obj
             @ '' and could not be converted automatically to DataFrame.'' @ [newline])
            @ ''Inspect with: print(type('' @ b"
    by (simp add: conversion_failure_message_def)
  then show "sublist ''Inspect with: print(type('' (conversion_failure_message label obj)"
    unfolding sublist_def by blast
qed

text \<open>
  C7, as the code has it, for \<open>ensure_dataframe\<close>. When the value is neither a table nor
  \<open>None\<close>, no conversion method yields a table, no tabular attribute holds a table or
  records, the value is not records from which pandas builds a table, and it has no
  non-empty \<open>__dict__\<close> that pandas normalizes, the coercion raises a TypeError (the
  ConversionError of the specification) whose message contains the label, the type of the
  value and the advice to inspect it.
\<close>

theorem exhausted_strategies_raise_type_error:
  assumes "as_dataframe obj = None" and "obj \<noteq> PyVal VNone"
    and "\<forall>m\<in>set conversion_methods. try_method pd obj m = None"
    and "\<forall>a\<in>set tabular_attributes.
           (case py_getattr obj a of
              None \<Rightarrow> True
            | Some v \<Rightarrow> as_dataframe v = None \<and> \<not> is_records v)"
    and "is_records obj \<longrightarrow> isl (DataFrame_new pd obj)"
    and "case py_dict obj of None \<Rightarrow> True | Some d \<Rightarrow> d = [] \<or> isl (json_normalize pd d)"
  shows "ensure_dataframe pd obj label = Inl (TypeError (conversion_failure_message label obj))
         \<and> sublist label (conversion_failure_message label obj)
         \<and> sublist (type_repr obj) (conversion_failure_message label obj)
         \<and> sublist ''Inspect with: print(type('' (conversion_failure_message label obj)"
proof -
  have m: "probe_methods pd obj conversion_methods = None"
    using assms(3) by (rule probe_methods_none)
  have a: "probe_attributes pd obj tabular_attributes = Inr None"
    using assms(4) by (rule probe_attributes_none)
  have r: "(if is_records obj
            then (case DataFrame_new pd obj of Inl e \<Rightarrow> None | Inr df \<Rightarrow> Some df)
            else None) = None"
    using assms(5) by (auto split: sum.splits)
  have d: "(case py_dict obj of
              None \<Rightarrow> None
            | Some d \<Rightarrow>
               (if d \<noteq> []
                then (case json_normalize pd d of Inl e \<Rightarrow> None | Inr df \<Rightarrow> Some df)
                else None)) = None"
    using assms(6) by (auto split: option.splits sum.splits)
  have "ensure_dataframe pd obj label = Inl (TypeError (conversion_failure_message label obj))"
    using assms(1,2) by (simp add: ensure_dataframe_def m a r d)
  then show ?thesis
    by (simp add: conversion_failure_message_parts)
qed

theorem exhausted_strategies_raise_type_error_witness:
  "ensure_dataframe ref_pandas opaque_statement ''balance_sheet''
     = Inl (TypeError (conversion_failure_message ''balance_sheet'' opaque_statement))
   \<and> sublist ''balance_sheet'' (conversion_failure_message ''balance_sheet'' opaque_statement)
   \<and> sublist (''<class '' @ quote # ''Widget'' @ quote # ''>'')
        (conversion_failure_message ''balance_sheet'' opaque_statement)
   \<and> sublist ''Inspect with: print(type(''
        (conversion_failure_message ''balance_sheet'' opaque_statement)
   \<and> ensure_dataframe ref_pandas scalar_dict ''cash_flow''
       = Inl (TypeError (conversion_failure_message ''cash_flow'' scalar_dict))"
proof -
  have a: "as_dataframe opaque_statement = None" "opaque_statement \<noteq> PyVal VNone"
    "\<forall>m\<in>set conversion_methods. try_method ref_pandas opaque_statement m = None"
    "\<forall>a\<in>set tabular_attributes.
       (case py_getattr opaque_statement a of
          None \<Rightarrow> True
        | Some v \<Rightarrow> as_dataframe v = None \<and> \<not> is_records v)"
    "is_records opaque_statement \<longrightarrow> isl (DataFrame_new ref_pandas opaque_statement)"
    "case py_dict opaque_statement of
       None \<Rightarrow> True
     | Some d \<Rightarrow> d = [] \<or> isl (json_normalize ref_pandas d)"
    by (simp_all add: opaque_statement_def try_method_def)
  have b: "as_dataframe scalar_dict = None" "scalar_dict \<noteq> PyVal VNone"
    "\<forall>m\<in>set conversion_methods. try_method ref_pandas scalar_dict m = None"
    "\<forall>a\<in>set tabular_attributes.
       (case py_getattr scalar_dict a of
          None \<Rightarrow> True
        | Some v \<Rightarrow> as_dataframe v = None \<and> \<not> is_records v)"
    "is_records scalar_dict \<longrightarrow> isl (DataFrame_new ref_pandas scalar_dict)"
    "case py_dict scalar_dict of
       None \<Rightarrow> True
     | Some d \<Rightarrow> d = [] \<or> isl (json_normalize ref_pandas d)"
    by (simp_all add: scalar_dict_def try_method_def ref_pandas_def)
  have t: "type_repr opaque_statement = ''<class '' @ quote # ''Widget'' @ quote # ''>''"
    by (simp add: type_repr_def opaque_statement_def)
  from exhausted_strategies_raise_type_error [OF a, of "''balance_sheet''"]
       exhausted_strategies_raise_type_error [OF b, of "''cash_flow''"] t
  show ?thesis by simp
qed

text \<open>
  C7 as stated fails for \<open>normalize_statement\<close>, which takes no label: its TypeError
  names the type only, with no advice to inspect the value and no label.
\<close>

theorem statement_type_error_counterexample:
  "normalize_statement opaque_statement
     = Inl (TypeError (''Unexpected statement type: <class '' @ quote # ''Widget'' @ quote # ''>''))
   \<and> \<not> sublist ''Inspect''
         (''Unexpected statement type: <class '' @ quote # ''Widget'' @ quote # ''>'')
   \<and> \<not> sublist ''balance_sheet''
         (''Unexpected statement type: <class '' @ quote # ''Widget'' @ quote # ''>'')"
proof -
  have "normalize_statement opaque_statement
     = Inl (TypeError (''Unexpected statement type: <class '' @ quote # ''Widget'' @ quote # ''>''))"
    by (simp add: normalize_statement_def opaque_statement_def statement_methods_def type_repr_def)
  moreover have "\<not> sublist ''Inspect''
         (''Unexpected statement type: <class '' @ quote # ''Widget'' @ quote # ''>'')"
    by code_simp
  moreover have "\<not> sublist ''balance_sheet''
         (''Unexpected statement type: <class '' @ quote # ''Widget'' @ quote # ''>'')"
    by code_simp
  ultimately show ?thesis by blast
qed

section \<open>Values that are tables already\<close>

lemma ensure_dataframe_table: "ensure_dataframe pd (DataFrame df) label = Inr df"
  by (simp add: ensure_dataframe_def)

lemma call_first_present_none:
  "\<forall>a\<in>set as. py_getattr stmt a = None \<Longrightarrow> call_first_present stmt as = None"
  by (induction as) simp_all

lemma normalize_statement_table:
  "set (columns df) \<inter> set statement_methods = {} \<Longrightarrow>
   normalize_statement (DataFrame df) = Inr (DataFrame df)"
proof -
  assume "set (columns df) \<inter> set statement_methods = {}"
  then have "\<forall>a\<in>set statement_methods. py_getattr (DataFrame df) a = None"
    by auto
  then have "call_first_present (DataFrame df) statement_methods = None"
    by (rule call_first_present_none)
  then show ?thesis
    by (simp add: normalize_statement_def)
qed

text \<open>
  C8. \<open>ensure_dataframe\<close> returns every table as it is, and \<open>normalize_statement\<close> returns
  every canonical table as it is; so coercing the result again changes nothing.
\<close>

theorem canonical_table_returned_unchanged:
  "ensure_dataframe pd (DataFrame df) label = Inr df
   \<and> (canonical_table df \<longrightarrow> normalize_statement (DataFrame df) = Inr (DataFrame df))"
proof (intro conjI impI)
  show "ensure_dataframe pd (DataFrame df) label = Inr df"
    by (rule ensure_dataframe_table)
next
  assume "canonical_table df"
  then have "\<forall>c\<in>set (columns df). c \<notin> set statement_methods"
    by (simp add: canonical_table_def line_item_def list_all_iff)
  then have "set (columns df) \<inter> set statement_methods = {}"
    by blast
  then show "normalize_statement (DataFrame df) = Inr (DataFrame df)"
    by (rule normalize_statement_table)
qed

theorem canonical_table_returned_unchanged_witness:
  "canonical_table canonical_balance_sheet
   \<and> index canonical_balance_sheet = [VStr ''2023Q1'', VStr ''2023Q2'']
   \<and> ensure_dataframe ref_pandas (DataFrame canonical_balance_sheet) ''balance_sheet''
       = Inr canonical_balance_sheet
   \<and> normalize_statement (DataFrame canonical_balance_sheet) = Inr (DataFrame canonical_balance_sheet)"
proof -
  have eq: "canonical_balance_sheet =
     \<lparr> columns = [''current_assets'', ''current_liabilities'', ''total_assets''],
       rows = [(VStr ''2023Q1'', [VInt 200, VInt 100, VInt 1000]),
               (VStr ''2023Q2'', [VInt 150, VInt 0, VInt 900])] \<rparr>"
    by (simp add: canonical_balance_sheet_def normalize_df_def example_balance_sheet_def
          frame_simps Let_def)
  have c: "canonical_table canonical_balance_sheet"
    by (simp add: eq canonical_table_def line_item_def index_def statement_methods_def
          conversion_methods_def)
  have i: "index canonical_balance_sheet = [VStr ''2023Q1'', VStr ''2023Q2'']"
    by (simp add: eq index_def)
  from canonical_table_returned_unchanged
         [of ref_pandas canonical_balance_sheet "''balance_sheet''"] c i
  show ?thesis by blast
qed

text \<open>
  Outside the canonical tables, \<open>normalize_statement\<close> probes the method names before it
  checks for a table, and pandas resolves an attribute that names a column to that column:
  a table with a column labelled \<open>to_pandas\<close> has that column called.
\<close>

lemma method_named_column_is_called:
  "as_dataframe (DataFrame export_log) = Some export_log
   \<and> py_getattr (DataFrame export_log) ''to_pandas''
       = Some (Obj ''pandas.core.series.Series'' None [] None)
   \<and> normalize_statement (DataFrame export_log)
       = Inl (TypeError (quote # ''Series'' @ quote # '' object is not callable''))
   \<and> ensure_dataframe ref_pandas (DataFrame export_log) ''export_log'' = Inr export_log"
  by (simp add: normalize_statement_def statement_methods_def export_log_def py_call_def
        short_type_name_def ensure_dataframe_def)

section \<open>Zero denominators with a dirty numerator or a dirty neighbour\<close>








end
